theory Spec2Isabelle
  imports Complex_Main "HOL-Library.Sublist" "HOL-Library.Multiset"
begin

section \<open>Data model\<close>

text \<open>
  The embedding follows \<^verbatim>\<open>arbitrage_engine.py\<close> and \<^verbatim>\<open>paper_trader.py\<close>.
  Python floats are modelled as real numbers (exact arithmetic), \<^verbatim>\<open>float('inf')\<close> as a
  separate value, Python strings as \<^typ>\<open>string\<close>. The shared dictionary
  \<^verbatim>\<open>latest_prices\<close> keeps insertion order, so it is an association list; a ticker
  entry is a record whose \<^verbatim>\<open>"price"\<close> field may be missing. A dictionary has each
  key once; the theorems below hold for every association list. Every exception the
  modelled code can raise is a value of \<open>error\<close>. The attributes \<^verbatim>\<open>self.latest_prices\<close>
  and \<^verbatim>\<open>self.fee_rate\<close> are the parameters \<open>tbl\<close> and \<open>fee\<close>; the clock reading
  \<^verbatim>\<open>int(time.time() * 1000)\<close> is the parameter \<open>now\<close>. A call on the paper trader is
  returned as a value (\<open>tri_call\<close>, \<open>cycle_call\<close>) holding its arguments; the paper
  trader's own functions take the ledger and return the new one.
\<close>

datatype error = KeyError | ValueError | ZeroDivisionError | IndexError

record quote =
  price :: "real option"
  last_update :: int

type_synonym price_table = "(string \<times> quote) list"

definition bindE :: "error + 'a \<Rightarrow> ('a \<Rightarrow> error + 'b) \<Rightarrow> error + 'b" where
  "bindE m f = (case m of Inl e \<Rightarrow> Inl e | Inr x \<Rightarrow> f x)"

text \<open>\<^verbatim>\<open>a / b\<close> on floats raises on a zero divisor; \<^verbatim>\<open>math.log(x)\<close> raises a
  domain error unless \<open>x\<close> is positive.\<close>

definition py_div :: "real \<Rightarrow> real \<Rightarrow> error + real" where
  "py_div a b = (if b = 0 then Inl ZeroDivisionError else Inr (a / b))"


text \<open>A \<^verbatim>\<open>for\<close> loop whose body may raise: the first exception ends the loop.\<close>

fun foldE :: "('a \<Rightarrow> 's \<Rightarrow> error + 's) \<Rightarrow> 'a list \<Rightarrow> 's \<Rightarrow> error + 's" where
  "foldE f [] s = Inr s"
| "foldE f (x # xs) s = (case f x s of Inl e \<Rightarrow> Inl e | Inr s' \<Rightarrow> foldE f xs s')"

section \<open>Rate resolution\<close>

text \<open>\<^verbatim>\<open>get_rate(base, quote, pair_symbol)\<close>, lines 100-126.\<close>

definition get_rate :: "price_table \<Rightarrow> string \<Rightarrow> string \<Rightarrow> string \<Rightarrow> error + real option" where
  "get_rate tbl base quot pair_symbol =
     (case map_of tbl pair_symbol of
        None \<Rightarrow> Inr None
      | Some data \<Rightarrow>
          (case price data of
             None \<Rightarrow> Inr None
           | Some p \<Rightarrow>
               if pair_symbol = base @ quot then Inr (Some p)
               else if pair_symbol = quot @ base then
                 (if p \<noteq> 0 then bindE (py_div 1 p) (\<lambda>r. Inr (Some r)) else Inr None)
               else Inr None))"

text \<open>The symbol the triangular check picks for a leg (lines 67-69): the direct symbol
  when the table has it, the inverse symbol otherwise.\<close>

definition pair_symbol :: "price_table \<Rightarrow> string \<Rightarrow> string \<Rightarrow> string" where
  "pair_symbol tbl x y = (if map_of tbl (x @ y) \<noteq> None then x @ y else y @ x)"

text \<open>Resolution of one leg as the triangular check performs it (lines 67-78): pick the
  symbol, skip when the table lacks it, then \<open>get_rate\<close>.\<close>

definition resolve :: "price_table \<Rightarrow> string \<Rightarrow> string \<Rightarrow> error + real option" where
  "resolve tbl base quot =
     (let sym = pair_symbol tbl base quot in
      if map_of tbl sym = None then Inr None else get_rate tbl base quot sym)"

section \<open>Triangular scan\<close>

text \<open>One invocation of \<^verbatim>\<open>paper_trader.execute_triangular_trade\<close> by the engine.\<close>

record tri_call =
  tc_triplet :: "string \<times> string \<times> string"
  tc_trade_amount :: real
  tc_rate_AB :: real
  tc_rate_BC :: real
  tc_rate_CA :: real
  tc_net_profit :: real
  tc_timestamp :: int

text \<open>The triplets and the fee rate set by \<^verbatim>\<open>__init__\<close> (lines 33-40).\<close>

definition triangular_triplets :: "(string \<times> string \<times> string) list" where
  "triangular_triplets =
     [(''USDT'', ''BTC'', ''ETH''), (''USDT'', ''BTC'', ''BNB''), (''BTC'', ''ETH'', ''USDT'')]"

definition fee_rate :: real where
  "fee_rate = 1 / 1000"

text \<open>Lines 84-87: the product of the three rates after one fee deduction per leg.\<close>

definition effective_product :: "real \<Rightarrow> real \<Rightarrow> real \<Rightarrow> real \<Rightarrow> real" where
  "effective_product fee rate_AB rate_BC rate_CA =
     (let raw_product = rate_AB * rate_BC * rate_CA;
          fee_adjustment = (1 - fee) ^ 3
      in raw_product * fee_adjustment)"

text \<open>The body of the loop of \<^verbatim>\<open>run_triangular_arbitrage_check\<close> (lines 65-98) for one
  triplet: the call it makes on the paper trader, if any. \<open>now\<close> is the clock reading
  \<^verbatim>\<open>int(time.time() * 1000)\<close>.\<close>

definition triangular_step ::
  "price_table \<Rightarrow> real \<Rightarrow> int \<Rightarrow> string \<times> string \<times> string \<Rightarrow> error + tri_call option" where
  "triangular_step tbl fee now triplet =
     (case triplet of (A, B, C) \<Rightarrow>
        let pair_AB = pair_symbol tbl A B;
            pair_BC = pair_symbol tbl B C;
            pair_CA = pair_symbol tbl C A
        in if map_of tbl pair_AB = None \<or> map_of tbl pair_BC = None \<or> map_of tbl pair_CA = None
           then Inr None
           else
             bindE (get_rate tbl A B pair_AB) (\<lambda>rate_AB.
             bindE (get_rate tbl B C pair_BC) (\<lambda>rate_BC.
             bindE (get_rate tbl C A pair_CA) (\<lambda>rate_CA.
               case (rate_AB, rate_BC, rate_CA) of
                 (Some rAB, Some rBC, Some rCA) \<Rightarrow>
                   if effective_product fee rAB rBC rCA > 1
                   then Inr (Some \<lparr>tc_triplet = triplet, tc_trade_amount = 100,
                                   tc_rate_AB = rAB, tc_rate_BC = rBC, tc_rate_CA = rCA,
                                   tc_net_profit = effective_product fee rAB rBC rCA - 1,
                                   tc_timestamp = now\<rparr>)
                   else Inr None
               | _ \<Rightarrow> Inr None))))"

text \<open>The whole scan: the calls made on the paper trader, in triplet order.\<close>

definition run_triangular_arbitrage_check ::
  "price_table \<Rightarrow> real \<Rightarrow> int \<Rightarrow> (string \<times> string \<times> string) list \<Rightarrow> error + tri_call list" where
  "run_triangular_arbitrage_check tbl fee now triplets =
     foldE (\<lambda>triplet calls.
              bindE (triangular_step tbl fee now triplet)
                (\<lambda>r. Inr (case r of None \<Rightarrow> calls | Some c \<Rightarrow> calls @ [c])))
           triplets []"

section \<open>Paper trader\<close>

text \<open>\<^verbatim>\<open>PaperTrader\<close>: the virtual wallet is a dictionary from currency to balance, the
  trade log a list of entries; \<^verbatim>\<open>balances_after\<close> is a deep copy, that is, the value of
  the wallet at that moment.\<close>

record trade_details =
  td_timestamp :: int
  td_strategy :: string
  td_path :: string
  td_initial_amount :: real
  td_final_amount :: real
  td_net_profit :: real
  td_balances_after :: "string \<rightharpoonup> real"

record paper_trader =
  balances :: "string \<rightharpoonup> real"
  trade_log :: "trade_details list"

text \<open>What a call printed: the insufficient-balance message or the executed trade.\<close>

datatype trade_outcome = Insufficient_balance | Executed

text \<open>\<^verbatim>\<open>self.balances.get(c, 0)\<close>.\<close>

definition balance_of :: "paper_trader \<Rightarrow> string \<Rightarrow> real" where
  "balance_of pt c = (case balances pt c of None \<Rightarrow> 0 | Some b \<Rightarrow> b)"

text \<open>\<^verbatim>\<open>execute_triangular_trade\<close>, lines 26-65.\<close>

definition execute_triangular_trade ::
  "paper_trader \<Rightarrow> string \<times> string \<times> string \<Rightarrow> real \<Rightarrow> real \<Rightarrow> real \<Rightarrow> real \<Rightarrow> real \<Rightarrow> int
     \<Rightarrow> trade_outcome \<times> paper_trader" where
  "execute_triangular_trade pt triplet trade_amount rate_AB rate_BC rate_CA net_profit timestamp =
     (case triplet of (A, B, C) \<Rightarrow>
        if balance_of pt A < trade_amount then (Insufficient_balance, pt)
        else
          let amount_B = trade_amount * rate_AB * (1 - 1 / 1000);
              amount_C = amount_B * rate_BC * (1 - 1 / 1000);
              final_amount_A = amount_C * rate_CA * (1 - 1 / 1000);
              old_balance = balance_of pt A;
              balances' = (balances pt)(A \<mapsto> old_balance - trade_amount + final_amount_A);
              details = \<lparr>td_timestamp = timestamp, td_strategy = ''Triangular'',
                         td_path = A @ '' -> '' @ B @ '' -> '' @ C @ '' -> '' @ A,
                         td_initial_amount = trade_amount,
                         td_final_amount = final_amount_A,
                         td_net_profit = final_amount_A - trade_amount,
                         td_balances_after = balances'\<rparr>
          in (Executed, pt\<lparr>balances := balances', trade_log := trade_log pt @ [details]\<rparr>))"

text \<open>\<^verbatim>\<open>" -> ".join(cycle)\<close>.\<close>

fun join_arrow :: "string list \<Rightarrow> string" where
  "join_arrow [] = []"
| "join_arrow [x] = x"
| "join_arrow (x # y # ys) = x @ '' -> '' @ join_arrow (y # ys)"

text \<open>\<^verbatim>\<open>execute_cycle_trade\<close>, lines 67-101. \<^verbatim>\<open>cycle[0]\<close> raises on an empty cycle.\<close>

definition execute_cycle_trade ::
  "paper_trader \<Rightarrow> string list \<Rightarrow> real \<Rightarrow> real \<Rightarrow> int \<Rightarrow> error + trade_outcome \<times> paper_trader" where
  "execute_cycle_trade pt cycle trade_amount net_profit timestamp =
     (case cycle of
        [] \<Rightarrow> Inl IndexError
      | start_currency # _ \<Rightarrow>
          if balance_of pt start_currency < trade_amount then Inr (Insufficient_balance, pt)
          else
            let final_amount = trade_amount * (1 + net_profit);
                old_balance = balance_of pt start_currency;
                balances' = (balances pt)(start_currency \<mapsto> old_balance - trade_amount + final_amount);
                details = \<lparr>td_timestamp = timestamp, td_strategy = ''BellmanFord'',
                           td_path = join_arrow cycle @ '' -> '' @ start_currency,
                           td_initial_amount = trade_amount,
                           td_final_amount = final_amount,
                           td_net_profit = final_amount - trade_amount,
                           td_balances_after = balances'\<rparr>
            in Inr (Executed, pt\<lparr>balances := balances', trade_log := trade_log pt @ [details]\<rparr>))"

section \<open>Currency graph\<close>

text \<open>The adjacency dictionary \<^verbatim>\<open>graph\<close> keeps insertion order, which the relaxation
  loops follow: an association list from a currency to its list of (neighbour, weight).\<close>

type_synonym graph = "(string \<times> (string \<times> real) list) list"






section \<open>Bellman-Ford relaxation\<close>

text \<open>A distance is a float that starts at \<^verbatim>\<open>float('inf')\<close>: \<open>inf + w\<close> is \<open>inf\<close>, and
  \<open>x < inf\<close> holds exactly for finite \<open>x\<close>.\<close>

datatype dist = Fin real | PInf

fun dist_add :: "dist \<Rightarrow> real \<Rightarrow> dist" where
  "dist_add (Fin a) w = Fin (a + w)"
| "dist_add PInf w = PInf"

fun dist_less :: "dist \<Rightarrow> dist \<Rightarrow> bool" where
  "dist_less (Fin a) (Fin b) = (a < b)"
| "dist_less (Fin a) PInf = True"
| "dist_less PInf d = False"

text \<open>The dictionaries \<^verbatim>\<open>distances\<close> and \<^verbatim>\<open>predecessors\<close>: a missing key is \<open>None\<close>
  (a lookup there raises); a predecessor that is Python's \<^verbatim>\<open>None\<close> is \<open>Some None\<close>.\<close>

type_synonym distances = "string \<rightharpoonup> dist"
type_synonym predecessors = "string \<rightharpoonup> string option"

text \<open>Lines 176-178 for the edge \<open>(u, v, weight)\<close>.\<close>

definition relax_edge ::
  "string \<Rightarrow> string \<times> real \<Rightarrow> distances \<times> predecessors \<Rightarrow> error + distances \<times> predecessors" where
  "relax_edge u e st =
     (case e of (v, weight) \<Rightarrow>
      case st of (distances, predecessors) \<Rightarrow>
        (case distances u of
           None \<Rightarrow> Inl KeyError
         | Some du \<Rightarrow>
             (case distances v of
                None \<Rightarrow> Inl KeyError
              | Some dv \<Rightarrow>
                  if dist_less (dist_add du weight) dv
                  then Inr (distances(v \<mapsto> dist_add du weight), predecessors(v \<mapsto> Some u))
                  else Inr (distances, predecessors))))"

text \<open>One pass over all edges (lines 174-178).\<close>

definition relax_all ::
  "graph \<Rightarrow> distances \<times> predecessors \<Rightarrow> error + distances \<times> predecessors" where
  "relax_all graph st = foldE (\<lambda>(u, es). foldE (relax_edge u) es) graph st"

text \<open>Lines 168-178: initialisation for \<open>start\<close> and the \<open>|V| - 1\<close> passes.\<close>

definition bellman_ford ::
  "graph \<Rightarrow> string set \<Rightarrow> string \<Rightarrow> error + distances \<times> predecessors" where
  "bellman_ford graph currencies start =
     (let distances = (\<lambda>c. if c \<in> currencies then Some PInf else None);
          predecessors = (\<lambda>c. if c \<in> currencies then Some None else None);
          distances' = distances(start \<mapsto> Fin 0)
      in foldE (\<lambda>_. relax_all graph) [0..<card currencies - 1] (distances', predecessors))"

text \<open>The scan of lines 181-183: the target \<open>v\<close> of the first edge that still relaxes.\<close>

fun check_edges :: "distances \<Rightarrow> string \<Rightarrow> (string \<times> real) list \<Rightarrow> error + string option" where
  "check_edges distances u [] = Inr None"
| "check_edges distances u ((v, weight) # es) =
     (case distances u of
        None \<Rightarrow> Inl KeyError
      | Some du \<Rightarrow>
          (case distances v of
             None \<Rightarrow> Inl KeyError
           | Some dv \<Rightarrow>
               if dist_less (dist_add du weight) dv then Inr (Some v)
               else check_edges distances u es))"

fun first_relaxable :: "distances \<Rightarrow> graph \<Rightarrow> error + string option" where
  "first_relaxable distances [] = Inr None"
| "first_relaxable distances ((u, es) # g) =
     (case check_edges distances u es of
        Inl e \<Rightarrow> Inl e
      | Inr (Some v) \<Rightarrow> Inr (Some v)
      | Inr None \<Rightarrow> first_relaxable distances g)"

section \<open>Cycle reconstruction and replay\<close>

text \<open>The first loop of \<^verbatim>\<open>reconstruct_cycle\<close> (lines 210-214). The outer \<open>option\<close> is
  \<open>None\<close> when the loop never ends.\<close>

partial_function (option) walk_predecessors ::
  "predecessors \<Rightarrow> string set \<Rightarrow> string \<Rightarrow> (error + string option) option" where
  "walk_predecessors predecessors visited current =
     (if current \<in> visited then Some (Inr (Some current))
      else
        (case predecessors current of
           None \<Rightarrow> Some (Inl KeyError)
         | Some None \<Rightarrow> Some (Inr None)
         | Some (Some nxt) \<Rightarrow> walk_predecessors predecessors (insert current visited) nxt))"

text \<open>The second loop (lines 218-220); \<open>current\<close> may be Python's \<^verbatim>\<open>None\<close>, which is
  appended and then looked up, raising.\<close>

partial_function (option) collect_cycle ::
  "predecessors \<Rightarrow> string \<Rightarrow> string list \<Rightarrow> string option \<Rightarrow> (error + string list) option" where
  "collect_cycle predecessors cycle_start cycle current =
     (if current = Some cycle_start then Some (Inr cycle)
      else
        (case current of
           None \<Rightarrow> Some (Inl KeyError)
         | Some c \<Rightarrow>
             (case predecessors c of
                None \<Rightarrow> Some (Inl KeyError)
              | Some nxt \<Rightarrow> collect_cycle predecessors cycle_start (cycle @ [c]) nxt)))"

text \<open>\<^verbatim>\<open>reconstruct_cycle\<close>, lines 196-222.\<close>

definition reconstruct_cycle ::
  "predecessors \<Rightarrow> string \<Rightarrow> (error + string list option) option" where
  "reconstruct_cycle predecessors start_vertex =
     (case walk_predecessors predecessors {} start_vertex of
        None \<Rightarrow> None
      | Some (Inl e) \<Rightarrow> Some (Inl e)
      | Some (Inr None) \<Rightarrow> Some (Inr None)
      | Some (Inr (Some cycle_start)) \<Rightarrow>
          (case predecessors cycle_start of
             None \<Rightarrow> Some (Inl KeyError)
           | Some current \<Rightarrow>
               (case collect_cycle predecessors cycle_start [cycle_start] current of
                  None \<Rightarrow> None
                | Some (Inl e) \<Rightarrow> Some (Inl e)
                | Some (Inr cycle) \<Rightarrow> Some (Inr (Some (rev cycle))))))"

text \<open>The rate one leg of the replay uses (lines 238-246);
  \<^verbatim>\<open>self.latest_prices[symbol]["price"]\<close> raises when the entry has no price.\<close>

definition leg_rate :: "price_table \<Rightarrow> string \<Rightarrow> string \<Rightarrow> error + real" where
  "leg_rate tbl A B =
     (let direct_symbol = A @ B; inverse_symbol = B @ A in
      case map_of tbl direct_symbol of
        Some data \<Rightarrow> (case price data of None \<Rightarrow> Inl KeyError | Some rate \<Rightarrow> Inr rate)
      | None \<Rightarrow>
          (case map_of tbl inverse_symbol of
             Some data \<Rightarrow>
               (case price data of
                  None \<Rightarrow> Inl KeyError
                | Some inv_rate \<Rightarrow> if inv_rate \<noteq> 0 then py_div 1 inv_rate else Inr 0)
           | None \<Rightarrow> Inr 1))"

text \<open>\<^verbatim>\<open>calculate_cycle_profit\<close>, lines 224-248.\<close>

definition calculate_cycle_profit :: "price_table \<Rightarrow> real \<Rightarrow> string list \<Rightarrow> error + real" where
  "calculate_cycle_profit tbl fee cycle =
     foldE (\<lambda>i amount.
              let A = cycle ! i;
                  B = cycle ! ((i + 1) mod length cycle)
              in bindE (leg_rate tbl A B) (\<lambda>rate. Inr (amount * rate * (1 - fee))))
           [0..<length cycle] 1"

section \<open>Negative-cycle detection\<close>







section \<open>Auxiliary notions for the statements\<close>

text \<open>A ticker entry with a price, as the feed writes it.\<close>

definition quote_of :: "real \<Rightarrow> quote" where
  "quote_of p = \<lparr>price = Some p, last_update = 0\<rparr>"

text \<open>The call one triplet leads to, if any.\<close>

definition step_result :: "price_table \<Rightarrow> real \<Rightarrow> int \<Rightarrow> string \<times> string \<times> string \<Rightarrow> tri_call option" where
  "step_result tbl fee now t = (case triangular_step tbl fee now t of Inr r \<Rightarrow> r | Inl e \<Rightarrow> None)"

text \<open>Scenario 1 of the specification.\<close>

definition scenario1 :: price_table where
  "scenario1 = [(''USDTBTC'', quote_of 20000), (''BTCETH'', quote_of (5 / 100)),
                (''ETHUSDT'', quote_of 21500)]"

definition wallet0 :: paper_trader where
  "wallet0 = \<lparr>balances = [''USDT'' \<mapsto> 1000, ''BTC'' \<mapsto> 0, ''ETH'' \<mapsto> 0], trade_log = []\<rparr>"

text \<open>One leg of the replay (line 247) applied to the running amount.\<close>

definition replay_leg :: "price_table \<Rightarrow> real \<Rightarrow> string \<times> string \<Rightarrow> real \<Rightarrow> error + real" where
  "replay_leg tbl fee leg amount =
     (case leg of (X, Y) \<Rightarrow> bindE (leg_rate tbl X Y) (\<lambda>rate. Inr (amount * rate * (1 - fee))))"

text \<open>A table whose only quote for the leg from AAA to BBB is the inverse symbol, at price zero.\<close>

definition zero_inverse_table :: price_table where
  "zero_inverse_table = [(''BBBAAA'', quote_of 0), (''BBBCCC'', quote_of 2), (''CCCAAA'', quote_of 2)]"








definition two_way_graph :: graph where
  "two_way_graph =
     [(''AAA'', [(''BBB'', - ln (999 / 500)), (''BBB'', - ln (999 / 2000))]),
      (''BBB'', [(''AAA'', - ln (999 / 2000)), (''AAA'', - ln (999 / 500))])]"


section \<open>Rate resolution: properties\<close>

lemma bindE_simps [simp]:
  "bindE (Inl e) f = Inl e"
  "bindE (Inr x) f = f x"
  by (simp_all add: bindE_def)

text \<open>
  Claim C3. Resolution from base to quote returns the stored price when the direct symbol
  is present; the reciprocal when only the inverse symbol is present with a non-zero
  price; and absent, never a division fault, when neither symbol exists, when the quote
  found has no price field, or when only the inverse symbol exists with price zero.
\<close>

theorem get_rate_resolution:
  "(map_of tbl (b @ q) = Some d \<and> price d = Some p \<longrightarrow> resolve tbl b q = Inr (Some p))
   \<and> (map_of tbl (b @ q) = None \<and> map_of tbl (q @ b) = Some d \<and> price d = Some p \<and> p \<noteq> 0
        \<longrightarrow> resolve tbl b q = Inr (Some (1 / p)))
   \<and> (map_of tbl (b @ q) = None \<and> map_of tbl (q @ b) = None \<longrightarrow> resolve tbl b q = Inr None)
   \<and> (map_of tbl (pair_symbol tbl b q) = Some d \<and> price d = None \<longrightarrow> resolve tbl b q = Inr None)
   \<and> (map_of tbl (b @ q) = None \<and> map_of tbl (q @ b) = Some d \<and> price d = Some 0
        \<longrightarrow> resolve tbl b q = Inr None)
   \<and> (\<exists>r. resolve tbl b q = Inr r)"
  by (auto simp: resolve_def pair_symbol_def get_rate_def py_div_def Let_def
           split: option.splits)


theorem get_rate_resolution_witness:
  "resolve [(''BTCUSDT'', quote_of 20000)] ''BTC'' ''USDT'' = Inr (Some 20000)
   \<and> resolve [(''BTCUSDT'', quote_of 20000)] ''USDT'' ''BTC'' = Inr (Some (1 / 20000))
   \<and> resolve [(''BTCUSDT'', quote_of 20000)] ''ETH'' ''BTC'' = Inr None
   \<and> resolve [(''BTCUSDT'', \<lparr>price = None, last_update = 0\<rparr>)] ''BTC'' ''USDT'' = Inr None
   \<and> resolve [(''BTCUSDT'', quote_of 0)] ''USDT'' ''BTC'' = Inr None"
  using get_rate_resolution [of "[(''BTCUSDT'', quote_of 20000)]" "''BTC''" "''USDT''" "quote_of 20000" 20000]
        get_rate_resolution [of "[(''BTCUSDT'', quote_of 20000)]" "''USDT''" "''BTC''" "quote_of 20000" 20000]
        get_rate_resolution [of "[(''BTCUSDT'', quote_of 20000)]" "''ETH''" "''BTC''"]
        get_rate_resolution [of "[(''BTCUSDT'', \<lparr>price = None, last_update = 0\<rparr>)]" "''BTC''" "''USDT''"
                                "\<lparr>price = None, last_update = 0\<rparr>"]
        get_rate_resolution [of "[(''BTCUSDT'', quote_of 0)]" "''USDT''" "''BTC''" "quote_of 0"]
  by (simp add: quote_of_def pair_symbol_def)

section \<open>Triangular scan: properties\<close>


lemma get_rate_no_error: "\<exists>r. get_rate tbl b q s = Inr r"
  by (auto simp: get_rate_def py_div_def split: option.splits)

lemma triangular_step_resolve:
  "triangular_step tbl fee now (A, B, C) =
     bindE (resolve tbl A B) (\<lambda>rate_AB.
     bindE (resolve tbl B C) (\<lambda>rate_BC.
     bindE (resolve tbl C A) (\<lambda>rate_CA.
       case (rate_AB, rate_BC, rate_CA) of
         (Some rAB, Some rBC, Some rCA) \<Rightarrow>
           if effective_product fee rAB rBC rCA > 1
           then Inr (Some \<lparr>tc_triplet = (A, B, C), tc_trade_amount = 100,
                           tc_rate_AB = rAB, tc_rate_BC = rBC, tc_rate_CA = rCA,
                           tc_net_profit = effective_product fee rAB rBC rCA - 1,
                           tc_timestamp = now\<rparr>)
           else Inr None
       | _ \<Rightarrow> Inr None)))"
  using get_rate_no_error[of tbl A B "pair_symbol tbl A B"]
        get_rate_no_error[of tbl B C "pair_symbol tbl B C"]
        get_rate_no_error[of tbl C A "pair_symbol tbl C A"]
  by (auto simp: triangular_step_def resolve_def Let_def split: option.splits)

lemma triangular_step_no_error: "\<exists>r. triangular_step tbl fee now t = Inr r"
proof -
  obtain A B C where t: "t = (A, B, C)" by (cases t) auto
  obtain r1 where r1: "get_rate tbl A B (pair_symbol tbl A B) = Inr r1"
    using get_rate_no_error by blast
  obtain r2 where r2: "get_rate tbl B C (pair_symbol tbl B C) = Inr r2"
    using get_rate_no_error by blast
  obtain r3 where r3: "get_rate tbl C A (pair_symbol tbl C A) = Inr r3"
    using get_rate_no_error by blast
  show ?thesis
    by (simp add: t triangular_step_def Let_def r1 r2 r3 split: option.splits)
qed

lemma scan_acc:
  "foldE (\<lambda>triplet calls.
              bindE (triangular_step tbl fee now triplet)
                (\<lambda>r. Inr (case r of None \<Rightarrow> calls | Some c \<Rightarrow> calls @ [c])))
           ts acc = Inr (acc @ List.map_filter (step_result tbl fee now) ts)"
proof (induction ts arbitrary: acc)
  case Nil
  then show ?case by (simp add: List.map_filter_simps)
next
  case (Cons t ts)
  obtain r where r: "triangular_step tbl fee now t = Inr r"
    using triangular_step_no_error by blast
  show ?case
    by (cases r) (simp_all add: r Cons.IH List.map_filter_simps step_result_def)
qed

lemma scan_eq: "run_triangular_arbitrage_check tbl fee now ts = Inr (List.map_filter (step_result tbl fee now) ts)"
  by (simp add: run_triangular_arbitrage_check_def scan_acc)


text \<open>
  Claim C2. For a configured triplet (A, B, C) whose three rates resolve from the table,
  the scan makes a call for that triplet if and only if
  \<open>rateAB * rateBC * rateCA * (1 - fee) ^ 3 > 1\<close> (strictly), and the net profit it
  passes is that effective product minus 1.
\<close>

theorem triangular_emits_iff_profitable:
  assumes "resolve tbl A B = Inr (Some rAB)"
      and "resolve tbl B C = Inr (Some rBC)"
      and "resolve tbl C A = Inr (Some rCA)"
      and "(A, B, C) \<in> set triplets"
  shows "effective_product fee rAB rBC rCA = rAB * rBC * rCA * (1 - fee) ^ 3
     \<and> (\<exists>calls. run_triangular_arbitrage_check tbl fee now triplets = Inr calls
          \<and> ((\<exists>c \<in> set calls. tc_triplet c = (A, B, C)) \<longleftrightarrow> rAB * rBC * rCA * (1 - fee) ^ 3 > 1)
          \<and> (\<forall>c \<in> set calls. tc_triplet c = (A, B, C) \<longrightarrow>
                tc_net_profit c = rAB * rBC * rCA * (1 - fee) ^ 3 - 1
                \<and> tc_rate_AB c = rAB \<and> tc_rate_BC c = rBC \<and> tc_rate_CA c = rCA))"
proof -
  let ?eff = "rAB * rBC * rCA * (1 - fee) ^ 3"
  have eff: "effective_product fee rAB rBC rCA = ?eff"
    by (simp add: effective_product_def Let_def)
  have step: "step_result tbl fee now (A, B, C) =
      (if ?eff > 1 then Some \<lparr>tc_triplet = (A, B, C), tc_trade_amount = 100,
                           tc_rate_AB = rAB, tc_rate_BC = rBC, tc_rate_CA = rCA,
                           tc_net_profit = ?eff - 1, tc_timestamp = now\<rparr> else None)"
    by (simp add: step_result_def triangular_step_resolve assms eff)
  have trip: "step_result tbl fee now t = Some c \<Longrightarrow> tc_triplet c = t" for t c
    using triangular_step_no_error[of tbl fee now t]
    by (cases t)
       (auto simp: step_result_def triangular_step_def Let_def bindE_def
             split: sum.splits option.splits if_splits)
  have mem: "c \<in> set (List.map_filter (step_result tbl fee now) triplets)
      \<longleftrightarrow> (\<exists>t \<in> set triplets. step_result tbl fee now t = Some c)" for c
    by (induction triplets) (auto split: option.splits)
  have a: "(\<exists>c \<in> set (List.map_filter (step_result tbl fee now) triplets). tc_triplet c = (A, B, C))
      \<longleftrightarrow> ?eff > 1"
  proof
    assume "\<exists>c \<in> set (List.map_filter (step_result tbl fee now) triplets). tc_triplet c = (A, B, C)"
    then obtain c t where "t \<in> set triplets" "step_result tbl fee now t = Some c" "tc_triplet c = (A, B, C)"
      using mem by blast
    then have "step_result tbl fee now (A, B, C) = Some c" using trip by auto
    then show "?eff > 1" by (simp add: step split: if_splits)
  next
    assume "?eff > 1"
    then show "\<exists>c \<in> set (List.map_filter (step_result tbl fee now) triplets). tc_triplet c = (A, B, C)"
      using assms(4) step mem by force
  qed
  have b: "\<forall>c \<in> set (List.map_filter (step_result tbl fee now) triplets). tc_triplet c = (A, B, C) \<longrightarrow>
                tc_net_profit c = ?eff - 1
                \<and> tc_rate_AB c = rAB \<and> tc_rate_BC c = rBC \<and> tc_rate_CA c = rCA"
  proof (intro ballI impI)
    fix c assume "c \<in> set (List.map_filter (step_result tbl fee now) triplets)" "tc_triplet c = (A, B, C)"
    then obtain t where "t \<in> set triplets" "step_result tbl fee now t = Some c"
      using mem by blast
    with \<open>tc_triplet c = (A, B, C)\<close> have "step_result tbl fee now (A, B, C) = Some c" using trip by auto
    then show "tc_net_profit c = ?eff - 1
                \<and> tc_rate_AB c = rAB \<and> tc_rate_BC c = rBC \<and> tc_rate_CA c = rCA"
      by (auto simp: step split: if_splits)
  qed
  show ?thesis using eff a b by (simp add: scan_eq)
qed


theorem triangular_emits_iff_profitable_witness:
  "resolve scenario1 ''USDT'' ''BTC'' = Inr (Some 20000)
   \<and> resolve scenario1 ''BTC'' ''ETH'' = Inr (Some (5 / 100))
   \<and> resolve scenario1 ''ETH'' ''USDT'' = Inr (Some 21500)
   \<and> (''USDT'', ''BTC'', ''ETH'') \<in> set triangular_triplets
   \<and> (\<exists>calls. run_triangular_arbitrage_check scenario1 fee_rate 0 triangular_triplets = Inr calls
        \<and> (\<exists>c \<in> set calls. tc_triplet c = (''USDT'', ''BTC'', ''ETH'')
              \<and> tc_net_profit c = 20000 * (5 / 100) * 21500 * (1 - fee_rate) ^ 3 - 1))"
proof -
  have h1: "resolve scenario1 ''USDT'' ''BTC'' = Inr (Some 20000)"
    by (simp add: scenario1_def quote_of_def resolve_def pair_symbol_def get_rate_def)
  have h2: "resolve scenario1 ''BTC'' ''ETH'' = Inr (Some (5 / 100))"
    by (simp add: scenario1_def quote_of_def resolve_def pair_symbol_def get_rate_def)
  have h3: "resolve scenario1 ''ETH'' ''USDT'' = Inr (Some 21500)"
    by (simp add: scenario1_def quote_of_def resolve_def pair_symbol_def get_rate_def)
  have h4: "(''USDT'', ''BTC'', ''ETH'') \<in> set triangular_triplets"
    by (simp add: triangular_triplets_def)
  have gt: "20000 * (5 / 100) * 21500 * (1 - fee_rate) ^ 3 > 1"
    by (simp add: fee_rate_def power3_eq_cube)
  from triangular_emits_iff_profitable [OF h1 h2 h3 h4, of fee_rate 0] gt
  obtain calls where c: "run_triangular_arbitrage_check scenario1 fee_rate 0 triangular_triplets = Inr calls"
    and ex: "\<exists>c \<in> set calls. tc_triplet c = (''USDT'', ''BTC'', ''ETH'')"
    and all: "\<forall>c \<in> set calls. tc_triplet c = (''USDT'', ''BTC'', ''ETH'') \<longrightarrow>
                tc_net_profit c = 20000 * (5 / 100) * 21500 * (1 - fee_rate) ^ 3 - 1
                \<and> tc_rate_AB c = 20000 \<and> tc_rate_BC c = 5 / 100 \<and> tc_rate_CA c = 21500"
    by auto
  from ex all have "\<exists>c \<in> set calls. tc_triplet c = (''USDT'', ''BTC'', ''ETH'')
              \<and> tc_net_profit c = 20000 * (5 / 100) * 21500 * (1 - fee_rate) ^ 3 - 1"
    by blast
  with c h1 h2 h3 h4 show ?thesis by simp
qed

section \<open>Paper trader: properties\<close>

text \<open>
  Claim C9. When the balance of the starting currency is below the trade amount, either
  notification is rejected for insufficient balance and the ledger is unchanged: no
  balance is modified and no entry is appended to the trade log. A notification that is
  not rejected updates the balance and appends exactly one entry.
\<close>

theorem insufficient_balance_rejected_unchanged:
  "(balance_of pt A < amt \<longrightarrow>
      execute_triangular_trade pt (A, B, C) amt rAB rBC rCA net ts = (Insufficient_balance, pt))
   \<and> (balance_of pt s < amt \<longrightarrow>
      execute_cycle_trade pt (s # rest) amt net ts = Inr (Insufficient_balance, pt))
   \<and> (\<forall>pt'. execute_triangular_trade pt (A, B, C) amt rAB rBC rCA net ts = (Executed, pt') \<longrightarrow>
        amt \<le> balance_of pt A \<and> balances pt' A \<noteq> None
        \<and> length (trade_log pt') = Suc (length (trade_log pt)))
   \<and> (\<forall>pt'. execute_cycle_trade pt (s # rest) amt net ts = Inr (Executed, pt') \<longrightarrow>
        amt \<le> balance_of pt s \<and> balances pt' s \<noteq> None
        \<and> length (trade_log pt') = Suc (length (trade_log pt)))"
  by (auto simp: execute_triangular_trade_def execute_cycle_trade_def Let_def)

theorem insufficient_balance_rejected_unchanged_witness:
  "balance_of wallet0 ''BTC'' < 100
   \<and> execute_triangular_trade wallet0 (''BTC'', ''ETH'', ''USDT'') 100 2 3 4 23 0
       = (Insufficient_balance, wallet0)
   \<and> execute_cycle_trade wallet0 [''BTC'', ''ETH''] 100 23 0 = Inr (Insufficient_balance, wallet0)"
  using insufficient_balance_rejected_unchanged
          [of wallet0 "''BTC''" 100 "''ETH''" "''USDT''" 2 3 4 23 0 "''BTC''" "[''ETH'']"]
  by (simp add: wallet0_def balance_of_def)

text \<open>
  Claim C10. When a triangular trade executes, only the balance of the starting currency
  A is written: it becomes the old balance minus the trade amount plus the amount that
  comes back after the three conversions, and every other balance is as before.
\<close>

theorem triangular_trade_changes_only_start_balance:
  assumes "amt \<le> balance_of pt A"
  shows "\<exists>pt'. execute_triangular_trade pt (A, B, C) amt rAB rBC rCA net ts = (Executed, pt')
     \<and> (\<forall>c. c \<noteq> A \<longrightarrow> balances pt' c = balances pt c)
     \<and> balances pt' A =
         Some (balance_of pt A - amt
               + amt * rAB * (1 - 1 / 1000) * rBC * (1 - 1 / 1000) * rCA * (1 - 1 / 1000))"
  using assms by (simp add: execute_triangular_trade_def Let_def)

theorem triangular_trade_changes_only_start_balance_witness:
  "100 \<le> balance_of wallet0 ''USDT''
   \<and> (\<exists>pt'. execute_triangular_trade wallet0 (''USDT'', ''BTC'', ''ETH'') 100 2 3 4 23 0 = (Executed, pt')
        \<and> balances pt' ''BTC'' = Some 0 \<and> balances pt' ''ETH'' = Some 0
        \<and> balances pt' ''USDT'' = Some (1000 - 100 + 100 * 2 * (1 - 1 / 1000) * 3 * (1 - 1 / 1000) * 4 * (1 - 1 / 1000)))"
proof -
  have h: "100 \<le> balance_of wallet0 ''USDT''"
    by (simp add: wallet0_def balance_of_def)
  from triangular_trade_changes_only_start_balance [OF h, of "''BTC''" "''ETH''" 2 3 4 23 0]
  obtain pt' where
    e: "execute_triangular_trade wallet0 (''USDT'', ''BTC'', ''ETH'') 100 2 3 4 23 0 = (Executed, pt')"
    and f: "\<forall>c. c \<noteq> ''USDT'' \<longrightarrow> balances pt' c = balances wallet0 c"
    and a: "balances pt' ''USDT'' =
         Some (balance_of wallet0 ''USDT'' - 100
               + 100 * 2 * (1 - 1 / 1000) * 3 * (1 - 1 / 1000) * 4 * (1 - 1 / 1000))"
    by blast
  have "balances pt' ''BTC'' = Some 0" "balances pt' ''ETH'' = Some 0"
    using f by (simp_all add: wallet0_def)
  moreover have "balance_of wallet0 ''USDT'' = 1000"
    by (simp add: wallet0_def balance_of_def)
  ultimately show ?thesis using h e a by simp
qed

section \<open>Cycle replay: properties\<close>

lemma foldE_map: "foldE f (map g xs) s = foldE (\<lambda>x. f (g x)) xs s"
  by (induction xs arbitrary: s) (auto split: sum.splits)

lemma foldE_cong_list:
  "(\<And>x s. x \<in> set xs \<Longrightarrow> f x s = g x s) \<Longrightarrow> foldE f xs s = foldE g xs s"
  by (induction xs arbitrary: s) (auto split: sum.splits)

lemma cycle_legs:
  "map (\<lambda>i. (cycle ! i, cycle ! ((i + 1) mod length cycle))) [0..<length cycle]
     = zip cycle (rotate1 cycle)"
  by (rule nth_equalityI) (simp_all add: nth_rotate1)

lemma calculate_cycle_profit_legs:
  "calculate_cycle_profit tbl fee cycle = foldE (replay_leg tbl fee) (zip cycle (rotate1 cycle)) 1"
proof -
  have "calculate_cycle_profit tbl fee cycle
      = foldE (\<lambda>i. replay_leg tbl fee (cycle ! i, cycle ! ((i + 1) mod length cycle)))
          [0..<length cycle] 1"
    unfolding calculate_cycle_profit_def Let_def
    by (rule foldE_cong_list) (simp add: replay_leg_def)
  also have "\<dots> = foldE (replay_leg tbl fee)
      (map (\<lambda>i. (cycle ! i, cycle ! ((i + 1) mod length cycle))) [0..<length cycle]) 1"
    by (simp add: foldE_map)
  finally show ?thesis by (simp only: cycle_legs)
qed

lemma replay_legs_product:
  assumes "\<forall>(X, Y) \<in> set legs. leg_rate tbl X Y = Inr (r X Y)"
  shows "foldE (replay_leg tbl fee) legs amount
     = Inr (amount * (\<Prod>(X, Y) \<leftarrow> legs. r X Y * (1 - fee)))"
  using assms
proof (induction legs arbitrary: amount)
  case Nil
  then show ?case by simp
next
  case (Cons leg legs)
  obtain X Y where leg: "leg = (X, Y)" by (cases leg)
  from Cons.prems have "leg_rate tbl X Y = Inr (r X Y)" by (simp add: leg)
  then have step: "replay_leg tbl fee (X, Y) amount = Inr (amount * r X Y * (1 - fee))"
    by (simp add: replay_leg_def)
  from Cons.prems have "\<forall>(X, Y) \<in> set legs. leg_rate tbl X Y = Inr (r X Y)" by simp
  from Cons.IH [OF this] show ?case
    by (simp add: step leg mult.assoc)
qed


text \<open>
  Claim C6 (as the code has it). The replay starts from amount 1 and, for each
  consecutive pair (X, Y) of the cycle, wrapping from the last element to the first,
  multiplies the running amount by \<open>rate * (1 - fee)\<close>. The rate is the price of the direct
  symbol when the table has it; otherwise the reciprocal of the inverse symbol's price
  when that is not zero, and 0 when it is zero; and 1 when the table has neither symbol,
  so that such a leg still pays the fee.
\<close>

theorem cycle_profit_replay:
  "calculate_cycle_profit tbl fee cycle = foldE (replay_leg tbl fee) (zip cycle (rotate1 cycle)) 1
   \<and> ((\<forall>(X, Y) \<in> set (zip cycle (rotate1 cycle)). leg_rate tbl X Y = Inr (r X Y)) \<longrightarrow>
        calculate_cycle_profit tbl fee cycle
          = Inr (\<Prod>(X, Y) \<leftarrow> zip cycle (rotate1 cycle). r X Y * (1 - fee)))
   \<and> (map_of tbl (X @ Y) = Some d \<and> price d = Some p \<longrightarrow> leg_rate tbl X Y = Inr p)
   \<and> (map_of tbl (X @ Y) = None \<and> map_of tbl (Y @ X) = Some d \<and> price d = Some p \<and> p \<noteq> 0 \<longrightarrow>
        leg_rate tbl X Y = Inr (1 / p))
   \<and> (map_of tbl (X @ Y) = None \<and> map_of tbl (Y @ X) = Some d \<and> price d = Some 0 \<longrightarrow>
        leg_rate tbl X Y = Inr 0)
   \<and> (map_of tbl (X @ Y) = None \<and> map_of tbl (Y @ X) = None \<longrightarrow>
        leg_rate tbl X Y = Inr 1 \<and> replay_leg tbl fee (X, Y) amount = Inr (amount * (1 - fee)))"
proof -
  have "calculate_cycle_profit tbl fee cycle
          = Inr (\<Prod>(X, Y) \<leftarrow> zip cycle (rotate1 cycle). r X Y * (1 - fee))"
    if "\<forall>(X, Y) \<in> set (zip cycle (rotate1 cycle)). leg_rate tbl X Y = Inr (r X Y)"
    using replay_legs_product [OF that, of fee 1] by (simp add: calculate_cycle_profit_legs)
  then show ?thesis
    by (auto simp: calculate_cycle_profit_legs leg_rate_def py_div_def replay_leg_def Let_def)
qed

theorem cycle_profit_replay_witness:
  "calculate_cycle_profit scenario1 fee_rate [''USDT'', ''BTC'', ''ETH'']
     = Inr (20000 * (1 - fee_rate) * ((5 / 100) * (1 - fee_rate) * (21500 * (1 - fee_rate))))
   \<and> leg_rate scenario1 ''USDT'' ''BTC'' = Inr 20000
   \<and> leg_rate scenario1 ''BTC'' ''USDT'' = Inr (1 / 20000)
   \<and> leg_rate zero_inverse_table ''AAA'' ''BBB'' = Inr 0
   \<and> leg_rate scenario1 ''ETH'' ''BNB'' = Inr 1"
proof -
  let ?r = "\<lambda>X Y. if X = ''USDT'' then 20000 else if X = ''BTC'' then 5 / 100 else (21500::real)"
  have legs: "\<forall>(X, Y) \<in> set (zip [''USDT'', ''BTC'', ''ETH''] (rotate1 [''USDT'', ''BTC'', ''ETH''])).
      leg_rate scenario1 X Y = Inr (?r X Y)"
    by (simp add: scenario1_def quote_of_def leg_rate_def)
  show ?thesis
    using legs
      cycle_profit_replay [of scenario1 fee_rate "[''USDT'', ''BTC'', ''ETH'']" ?r
                              "''USDT''" "''BTC''" "quote_of 20000" 20000]
      cycle_profit_replay [of scenario1 fee_rate "[''USDT'', ''BTC'', ''ETH'']" ?r
                              "''BTC''" "''USDT''" "quote_of 20000" 20000]
      cycle_profit_replay [of zero_inverse_table fee_rate "[]" ?r
                              "''AAA''" "''BBB''" "quote_of 0" 0]
      cycle_profit_replay [of scenario1 fee_rate "[''USDT'', ''BTC'', ''ETH'']" ?r
                              "''ETH''" "''BNB''"]
    by (simp add: scenario1_def zero_inverse_table_def quote_of_def)
qed

theorem unresolved_leg_not_noop_counterexample:
  "resolve zero_inverse_table ''AAA'' ''BBB'' = Inr None
   \<and> leg_rate zero_inverse_table ''AAA'' ''BBB'' = Inr 0
   \<and> calculate_cycle_profit zero_inverse_table fee_rate [''AAA'', ''BBB'', ''CCC''] = Inr 0
   \<and> resolve [] ''AAA'' ''BBB'' = Inr None \<and> resolve [] ''BBB'' ''AAA'' = Inr None
   \<and> calculate_cycle_profit [] fee_rate [''AAA'', ''BBB''] = Inr (998001 / 1000000)"
  by (simp add: zero_inverse_table_def quote_of_def resolve_def pair_symbol_def get_rate_def
        leg_rate_def calculate_cycle_profit_def py_div_def fee_rate_def Let_def
        upt_conv_Cons)



section \<open>Currency graph: properties\<close>















section \<open>Negative-cycle detection: properties\<close>


















section \<open>Negative-cycle detection: claims\<close>

lemma neg_ln_plus:
  "0 < a \<Longrightarrow> 0 < b \<Longrightarrow> - ln a + - ln b = - ln (a * b)"
  "0 < a \<Longrightarrow> 0 < b \<Longrightarrow> - ln a - ln b = - ln (a * b)" for a b :: real
  by (simp_all add: ln_mult)


text \<open>
  The run on the two-way table at fee rate 0.001, step by step. The graph has the edges
  AAA to BBB with weights \<open>- ln 1.998\<close> and \<open>- ln 0.4995\<close> and BBB to AAA with weights
  \<open>- ln 0.4995\<close> and \<open>- ln 1.998\<close>, in this order; with two currencies there is one
  pass. From BBB: the edges out of AAA do not relax, the distance of AAA being infinite;
  the first edge out of BBB sets the distance of AAA to \<open>- ln 0.4995\<close> with predecessor
  BBB, the second lowers it to \<open>- ln 1.998\<close>. In the scan the first edge, AAA to BBB,
  still relaxes; its target BBB has no predecessor, so no cycle is reconstructed and the
  call returns. From AAA: the first edge sets the distance of BBB to \<open>- ln 1.998\<close> with
  predecessor AAA, the last edge sets the distance of AAA to \<open>- 2 * ln 1.998\<close> with
  predecessor BBB. In the scan the first edge still relaxes, with target BBB; the walk
  visits BBB, AAA and BBB again, the cycle is AAA, BBB, and its replay gives
  \<open>2 * 0.999 * 2 * 0.999 = 3.992004\<close>.
\<close>

lemma two_way_trace_BBB:
  "\<exists>d p. bellman_ford two_way_graph {''AAA'', ''BBB''} ''BBB'' = Inr (d, p)
     \<and> d ''BBB'' = Some (Fin 0) \<and> d ''AAA'' = Some (Fin (- ln (999 / 500)))
     \<and> p ''BBB'' = Some None \<and> p ''AAA'' = Some (Some ''BBB'')
     \<and> first_relaxable d two_way_graph = Inr (Some ''BBB'')
     \<and> reconstruct_cycle p ''BBB'' = Some (Inr None)"
  by (simp add: bellman_ford_def two_way_graph_def relax_all_def relax_edge_def Let_def
        neg_ln_plus reconstruct_cycle_def walk_predecessors.simps)

lemma two_way_trace_AAA:
  "\<exists>d p. bellman_ford two_way_graph {''AAA'', ''BBB''} ''AAA'' = Inr (d, p)
     \<and> d ''BBB'' = Some (Fin (- ln (999 / 500)))
     \<and> d ''AAA'' = Some (Fin (- ln (998001 / 250000)))
     \<and> p ''BBB'' = Some (Some ''AAA'') \<and> p ''AAA'' = Some (Some ''BBB'')
     \<and> first_relaxable d two_way_graph = Inr (Some ''BBB'')
     \<and> reconstruct_cycle p ''BBB'' = Some (Inr (Some [''AAA'', ''BBB'']))"
  by (simp add: bellman_ford_def two_way_graph_def relax_all_def relax_edge_def Let_def
        neg_ln_plus reconstruct_cycle_def walk_predecessors.simps collect_cycle.simps)
















end
